theory Spec2Isabelle
  imports Complex_Main
begin

section \<open>Readability statistics of a text (text\_statistics.py)\<close>

text \<open>
  A shallow embedding of \<^verbatim>\<open>src/text_statistics.py\<close>. A Python \<^verbatim>\<open>str\<close> is a
  \<^typ>\<open>string\<close>: one \<^typ>\<open>char\<close> per code point, so the texts covered are those whose
  code points are below 256. The private helpers of the source start with an underscore
  (\<^verbatim>\<open>_count_words\<close>); an Isabelle name cannot, so the underscore is dropped.
\<close>

subsection \<open>Errors\<close>

text \<open>
  The source raises in two ways: a division by zero (\<^verbatim>\<open>ZeroDivisionError\<close> for the
  quotient of two ints, and its subclass \<^verbatim>\<open>decimal.DivisionByZero\<close> for a Decimal
  divided by zero), and the explicit \<^verbatim>\<open>raise Exception("Not implemented")\<close>.
\<close>

datatype error = ZeroDivisionError | Exception string

subsection \<open>Decimal arithmetic\<close>

text \<open>
  A \<^verbatim>\<open>decimal.Decimal\<close> is modelled by its value, a rational. The constructor is
  exact, for an int and for a float alike; every arithmetic operation rounds its exact
  result to the 28 significant digits of the default context, ties to even. The exponent
  limits of the context (\<open>10\<^sup>9\<^sup>9\<^sup>9\<^sup>9\<^sup>9\<^sup>9\<close>) are not modelled.
\<close>

type_synonym dec = rat

fun ndigits :: "nat \<Rightarrow> nat \<Rightarrow> nat" where
  "ndigits b n = (if b < 2 \<or> n < b then 1 else Suc (ndigits b (n div b)))"

definition round_half_even :: "rat \<Rightarrow> int" where
  "round_half_even x =
     (let f = \<lfloor>x\<rfloor>; d = x - of_int f
      in if d < 1 / 2 then f else if 1 / 2 < d then f + 1 else if even f then f else f + 1)"

definition magnitude :: "nat \<Rightarrow> rat \<Rightarrow> int" where
  \<comment> \<open>for \<open>0 < x\<close>: an \<open>a\<close> with \<open>b\<^sup>a \<le> x \<le> b\<^sup>a\<^sup>+\<^sup>1\<close> (the upper bound is met only
      by a power of \<open>b\<close> below 1, where the rounding is exact either way)\<close>
  "magnitude b x =
     (if 1 \<le> x then int (ndigits b (nat \<lfloor>x\<rfloor>)) - 1 else - int (ndigits b (nat \<lfloor>1 / x\<rfloor>)))"

definition scale_pow :: "nat \<Rightarrow> int \<Rightarrow> rat" where
  "scale_pow b e = (if 0 \<le> e then of_nat b ^ nat e else 1 / of_nat b ^ nat (- e))"

definition round_sig :: "nat \<Rightarrow> nat \<Rightarrow> rat \<Rightarrow> rat" where
  \<comment> \<open>\<open>x\<close> rounded to \<open>p\<close> significant digits in base \<open>b\<close>, ties to even\<close>
  "round_sig b p x =
     (if x = 0 then 0
      else let s = scale_pow b (int p - 1 - magnitude b \<bar>x\<bar>)
           in sgn x * of_int (round_half_even (\<bar>x\<bar> * s)) / s)"

definition context_round :: "rat \<Rightarrow> dec" where
  "context_round x = round_sig 10 28 x"

definition float_lit :: "rat \<Rightarrow> rat" where
  \<comment> \<open>the binary64 value a float literal denotes: the nearest double, ties to even\<close>
  "float_lit x = round_sig 2 53 x"

definition D :: "rat \<Rightarrow> dec" where
  "D x = x"

definition dec_add :: "dec \<Rightarrow> dec \<Rightarrow> dec" where
  "dec_add a b = context_round (a + b)"

definition dec_sub :: "dec \<Rightarrow> dec \<Rightarrow> dec" where
  "dec_sub a b = context_round (a - b)"

definition dec_mul :: "dec \<Rightarrow> dec \<Rightarrow> dec" where
  "dec_mul a b = context_round (a * b)"

definition py_div :: "dec \<Rightarrow> dec \<Rightarrow> error + dec" where
  "py_div a b = (if b = 0 then Inl ZeroDivisionError else Inr (context_round (a / b)))"

subsection \<open>Regular expressions\<close>

text \<open>
  The fragment of Python's \<^verbatim>\<open>re\<close> the source uses, with the backtracking semantics of
  the library: a match attempt yields the possible outcomes in the order the matcher tries
  them (a greedy repetition the longest first, an optional part present first, the left
  alternative first), and the first outcome is the match. A position in the matched
  string is its index, the rest of the string from there, and the text of group 1.
\<close>

datatype citem = One char | Span char char

fun in_item :: "char \<Rightarrow> citem \<Rightarrow> bool" where
  "in_item c (One a) = (c = a)"
| "in_item c (Span lo hi) = ((of_char lo :: nat) \<le> of_char c \<and> (of_char c :: nat) \<le> of_char hi)"

definition chars :: "string \<Rightarrow> citem list" where
  "chars w = map One w"

datatype atom =
    Any                 \<comment> \<open>\<^verbatim>\<open>.\<close>: every character but the newline\<close>
  | Set "citem list"    \<comment> \<open>\<^verbatim>\<open>[...]\<close>\<close>
  | NSet "citem list"   \<comment> \<open>\<^verbatim>\<open>[^...]\<close>\<close>

fun atom_ok :: "atom \<Rightarrow> char \<Rightarrow> bool" where
  "atom_ok Any c = (c \<noteq> CHR 0x0A)"
| "atom_ok (Set cs) c = list_ex (in_item c) cs"
| "atom_ok (NSet cs) c = (\<not> list_ex (in_item c) cs)"

datatype re =
    Lit string                   \<comment> \<open>a literal sequence of characters\<close>
  | Atom atom                    \<comment> \<open>one character of a class\<close>
  | Rep atom nat "nat option"    \<comment> \<open>\<^verbatim>\<open>+\<close>, \<^verbatim>\<open>{m,}\<close>, \<^verbatim>\<open>{m}\<close> on a class, greedy\<close>
  | Bol                          \<comment> \<open>\<^verbatim>\<open>^\<close>\<close>
  | Eol                          \<comment> \<open>\<^verbatim>\<open>$\<close>\<close>
  | Seq re re
  | Alt re re                    \<comment> \<open>\<^verbatim>\<open>a|b\<close>\<close>
  | Opt re                       \<comment> \<open>\<^verbatim>\<open>a?\<close>\<close>
  | Group re                     \<comment> \<open>\<^verbatim>\<open>(a)\<close>, group 1\<close>
  | Backref                      \<comment> \<open>\<^verbatim>\<open>\1\<close>\<close>

type_synonym mpos = "nat \<times> string \<times> string option"

definition lit_at :: "string \<Rightarrow> mpos \<Rightarrow> mpos list" where
  "lit_at w s =
     (case s of (p, r, g) \<Rightarrow>
        if take (length w) r = w then [(p + length w, drop (length w) r, g)] else [])"

primrec rmatch :: "re \<Rightarrow> mpos \<Rightarrow> mpos list" where
  "rmatch (Lit w) s = lit_at w s"
| "rmatch (Atom a) s =
     (case s of (p, r, g) \<Rightarrow>
        (case r of [] \<Rightarrow> [] | c # cs \<Rightarrow> if atom_ok a c then [(Suc p, cs, g)] else []))"
| "rmatch (Rep a lo hi) s =
     (case s of (p, r, g) \<Rightarrow>
        let n = length (takeWhile (atom_ok a) r);
            m = (case hi of None \<Rightarrow> n | Some h \<Rightarrow> min h n)
        in map (\<lambda>k. (p + k, drop k r, g)) (rev [lo ..< Suc m]))"
| "rmatch Bol s = (case s of (p, r, g) \<Rightarrow> if p = 0 then [s] else [])"
| "rmatch Eol s = (case s of (p, r, g) \<Rightarrow> if r = [] \<or> r = [CHR 0x0A] then [s] else [])"
| "rmatch (Seq a b) s = concat (map (rmatch b) (rmatch a s))"
| "rmatch (Alt a b) s = rmatch a s @ rmatch b s"
| "rmatch (Opt a) s = rmatch a s @ [s]"
| "rmatch (Group a) s =
     map (\<lambda>(p', r', g'). (p', r', Some (take (p' - fst s) (fst (snd s))))) (rmatch a s)"
| "rmatch Backref s = (case snd (snd s) of None \<Rightarrow> [] | Some w \<Rightarrow> lit_at w s)"

definition match_len :: "re \<Rightarrow> nat \<Rightarrow> string \<Rightarrow> nat option" where
  \<comment> \<open>the length of the match that starts at index \<open>p\<close>, where \<open>r\<close> is the rest from there\<close>
  "match_len x p r =
     (case rmatch x (p, r, None) of [] \<Rightarrow> None | (p', _) # _ \<Rightarrow> Some (p' - p))"

text \<open>
  \<^verbatim>\<open>pattern.search(text)\<close>, as a truth value: a match starts at some index, the end of
  the string included.
\<close>

fun search_at :: "re \<Rightarrow> nat \<Rightarrow> string \<Rightarrow> bool" where
  "search_at x p [] = (match_len x p [] \<noteq> None)"
| "search_at x p (c # cs) = (match_len x p (c # cs) \<noteq> None \<or> search_at x (Suc p) cs)"

definition re_search :: "re \<Rightarrow> string \<Rightarrow> bool" where
  "re_search x text = search_at x 0 text"

text \<open>
  \<^verbatim>\<open>pattern.sub('', text)\<close>, \<^verbatim>\<open>len(pattern.findall(text))\<close> and
  \<^verbatim>\<open>pattern.split(text)\<close> scan the text from the left for non-overlapping matches.
  Every pattern the source passes to them consumes at least one character, so the
  library's rules for empty matches play no part: the scan steps over an empty match as
  over no match.
\<close>

fun sub_at :: "re \<Rightarrow> nat \<Rightarrow> string \<Rightarrow> string" where
  "sub_at x p [] = []"
| "sub_at x p (c # cs) =
     (case match_len x p (c # cs) of
        Some (Suc n) \<Rightarrow> sub_at x (p + Suc n) (drop n cs)
      | _ \<Rightarrow> c # sub_at x (Suc p) cs)"

definition re_sub_empty :: "re \<Rightarrow> string \<Rightarrow> string" where
  "re_sub_empty x text = sub_at x 0 text"

fun findall_at :: "re \<Rightarrow> nat \<Rightarrow> string \<Rightarrow> nat" where
  "findall_at x p [] = 0"
| "findall_at x p (c # cs) =
     (case match_len x p (c # cs) of
        Some (Suc n) \<Rightarrow> Suc (findall_at x (p + Suc n) (drop n cs))
      | _ \<Rightarrow> findall_at x (Suc p) cs)"

definition re_findall_len :: "re \<Rightarrow> string \<Rightarrow> nat" where
  "re_findall_len x text = findall_at x 0 text"

fun split_at :: "re \<Rightarrow> nat \<Rightarrow> string \<Rightarrow> string \<Rightarrow> string list" where
  "split_at x p cur [] = [cur]"
| "split_at x p cur (c # cs) =
     (case match_len x p (c # cs) of
        Some (Suc n) \<Rightarrow> cur # split_at x (p + Suc n) [] (drop n cs)
      | _ \<Rightarrow> split_at x (Suc p) (cur @ [c]) cs)"

definition re_split :: "re \<Rightarrow> string \<Rightarrow> string list" where
  "re_split x text = split_at x 0 [] text"

text \<open>
  A sufficient syntactic condition for a pattern to consume at least one character in
  every match; it holds of each pattern the source scans with (proved below).
\<close>

fun consumes :: "re \<Rightarrow> bool" where
  "consumes (Lit w) = (w \<noteq> [])"
| "consumes (Atom a) = True"
| "consumes (Rep a lo hi) = (0 < lo)"
| "consumes Bol = False"
| "consumes Eol = False"
| "consumes (Seq a b) = (consumes a \<or> consumes b)"
| "consumes (Alt a b) = (consumes a \<and> consumes b)"
| "consumes (Opt a) = False"
| "consumes (Group a) = consumes a"
| "consumes Backref = False"

subsection \<open>String methods\<close>

text \<open>\<^verbatim>\<open>text.split(' ')\<close>: the pieces between single spaces, empty pieces kept.\<close>

fun split_from :: "string \<Rightarrow> string \<Rightarrow> string list" where
  "split_from cur [] = [cur]"
| "split_from cur (c # cs) =
     (if c = CHR '' '' then cur # split_from [] cs else split_from (cur @ [c]) cs)"

definition str_split :: "string \<Rightarrow> string list" where
  "str_split text = split_from [] text"

text \<open>
  \<^verbatim>\<open>text.lower()\<close> on code points below 256: the ASCII capitals and the Latin-1
  capitals (\<open>0xC0\<close> to \<open>0xDE\<close>, the multiplication sign \<open>0xD7\<close> apart) move up by 32.
\<close>

definition lower_char :: "char \<Rightarrow> char" where
  "lower_char c =
     (let n = (of_char c :: nat)
      in if (65 \<le> n \<and> n \<le> 90) \<or> (192 \<le> n \<and> n \<le> 222 \<and> n \<noteq> 215) then char_of (n + 32) else c)"

definition lower :: "string \<Rightarrow> string" where
  "lower text = map lower_char text"

subsection \<open>The pattern tables\<close>

fun seq :: "re list \<Rightarrow> re" where
  "seq [] = Lit []"
| "seq [x] = x"
| "seq (x # xs) = Seq x (seq xs)"

definition re_count_sentences :: re where
  \<comment> \<open>\<^verbatim>\<open>[^\.!?]\<close>\<close>
  "re_count_sentences = Atom (NSet (chars ''.!?''))"

definition re_initials :: re where
  \<comment> \<open>\<^verbatim>\<open>[A-Z]\.[A-Z]\.\<close>\<close>
  "re_initials =
     seq [Atom (Set [Span CHR ''A'' CHR ''Z'']), Lit ''.'',
          Atom (Set [Span CHR ''A'' CHR ''Z'']), Lit ''.'']"

definition re_mr :: re where
  \<comment> \<open>\<^verbatim>\<open>Mr\.\<close>\<close>
  "re_mr = Lit ''Mr.''"

definition re_remove_fake_sentences :: "re list" where
  "re_remove_fake_sentences = [re_initials, re_mr]"

definition re_count_words :: re where
  \<comment> \<open>\<^verbatim>\<open>[^ ]\<close>\<close>
  "re_count_words = Atom (NSet (chars '' ''))"

definition re_letters_and_digits :: re where
  \<comment> \<open>\<^verbatim>\<open>[^a-zA-Z0-9]\<close>\<close>
  "re_letters_and_digits =
     Atom (NSet [Span CHR ''a'' CHR ''z'', Span CHR ''A'' CHR ''Z'', Span CHR ''0'' CHR ''9''])"

definition syllable_problem_words :: "(string \<times> int) list" where
  "syllable_problem_words = [(''simile'', 3), (''forever'', 3), (''shoreline'', 2)]"

definition vowels :: "citem list" where
  "vowels = chars ''aeiouy''"

text \<open>These syllables would be counted as two but should be one.\<close>

definition sub_syllables :: "re list" where
  "sub_syllables =
    [Lit ''cial'',
     Lit ''tia'',
     Lit ''cius'',
     Lit ''cious'',
     Lit ''giu'',
     Lit ''ion'',
     Lit ''iou'',
     seq [Lit ''sia'', Eol],
     seq [Rep (NSet (chars ''aeiuoyt'')) 2 None, Lit ''ed'', Eol],
     seq [Atom Any, Lit ''ely'', Eol],
     seq [Atom (Set (chars ''cg'')), Opt (Lit ''h''), Lit ''e'', Opt (Atom (Set (chars ''rsd''))), Eol],
     seq [Lit ''rve'', Opt (Lit ''d''), Eol],
     seq [Atom (Set vowels), Atom (Set (chars ''dt'')), Lit ''e'', Opt (Lit ''s''), Eol],
     seq [Atom (Set vowels), Atom (NSet (chars ''aeiouydt'')), Lit ''e'',
          Opt (Atom (Set (chars ''rsd''))), Eol],
     seq [Atom (Set vowels), Lit ''rse'', Eol]]"

text \<open>These syllables would be counted as one but should be two.\<close>

definition add_syllables :: "re list" where
  "add_syllables =
    [Lit ''ia'',
     Lit ''riet'',
     Lit ''dien'',
     Lit ''iu'',
     Lit ''io'',
     Lit ''ii'',
     seq [Atom (Set (chars ''aeiouym'')), Lit ''bl'', Eol],
     Rep (Set (chars ''aeiou'')) 3 (Some 3),
     seq [Bol, Lit ''mc''],
     seq [Lit ''ism'', Eol],
     seq [Group (Atom (NSet vowels)), Backref, Lit ''l'', Eol],
     seq [Atom (NSet (chars ''l'')), Lit ''lien''],
     seq [Bol, Lit ''coa'', Atom (Set (chars ''dglx'')), Atom Any],
     seq [Atom (NSet (chars ''gq'')), Lit ''ua'', Atom (NSet (chars ''auieo''))],
     seq [Lit ''dnt'', Eol],
     seq [Lit ''uity'', Eol],
     seq [Lit ''ie'', Group (Alt (Lit ''r'') (Lit ''st'')), Eol]]"

text \<open>Single syllable prefixes and suffixes.\<close>

definition syllable_prefix_suffix :: "re list" where
  "syllable_prefix_suffix =
    [seq [Bol, Lit ''un''],
     seq [Bol, Lit ''fore''],
     seq [Lit ''ly'', Eol],
     seq [Lit ''less'', Eol],
     seq [Lit ''ful'', Eol],
     seq [Lit ''er'', Opt (Lit ''s''), Eol],
     seq [Lit ''ing'', Opt (Lit ''s''), Eol]]"

definition re_syllable_non_word_chars :: re where
  \<comment> \<open>\<^verbatim>\<open>[^a-z]\<close>\<close>
  "re_syllable_non_word_chars = Atom (NSet [Span CHR ''a'' CHR ''z''])"

definition re_syllable_word_parts :: re where
  \<comment> \<open>\<^verbatim>\<open>[^aeiouy]+\<close>\<close>
  "re_syllable_word_parts = Rep (NSet vowels) 1 None"

subsection \<open>The syllable estimator\<close>

definition strip_affix :: "nat \<times> string \<Rightarrow> re \<Rightarrow> nat \<times> string" where
  \<comment> \<open>one round of the loop over the prefixes and suffixes\<close>
  "strip_affix st pf =
     (case st of (prefix_suffix_count, text) \<Rightarrow>
        (prefix_suffix_count + re_findall_len pf text, re_sub_empty pf text))"

definition cleaned :: "string \<Rightarrow> string" where
  \<comment> \<open>the first two assignments of \<^verbatim>\<open>syllable_count\<close>: lower case, letters and digits only\<close>
  "cleaned text = re_sub_empty re_letters_and_digits (lower text)"

definition count_rules :: "string \<Rightarrow> int" where
  \<comment> \<open>\<^verbatim>\<open>syllable_count\<close> from the affix loop to the last adjustment, on the cleaned word\<close>
  "count_rules text0 =
     (let stripped = foldl strip_affix (0, text0) syllable_prefix_suffix;
          prefix_suffix_count = fst stripped;
          text = re_sub_empty re_syllable_non_word_chars (snd stripped);
          word_parts = re_split re_syllable_word_parts text;
          word_part_count = length (filter (\<lambda>word_part. word_part \<noteq> []) word_parts);
          n0 = int word_part_count + int prefix_suffix_count;
          n1 = foldl (\<lambda>n x. if re_search x text then n - 1 else n) n0 sub_syllables;
          n2 = foldl (\<lambda>n x. if re_search x text then n + 1 else n) n1 add_syllables
      in if n2 = 0 then 1 else n2)"

definition syllable_count :: "string \<Rightarrow> int" where
  "syllable_count text =
     (if length text = 0 then 0
      else case map_of syllable_problem_words (cleaned text) of
             Some n \<Rightarrow> n
           | None \<Rightarrow> count_rules (cleaned text))"

subsection \<open>The counters\<close>

definition clean_text :: "string \<Rightarrow> string" where
  "clean_text text = text"

definition count_sentences :: "string \<Rightarrow> dec" where
  "count_sentences text =
     (if length text = 0 then 0
      else let text' = foldl (\<lambda>t remover. re_sub_empty remover t) text re_remove_fake_sentences
           in D (of_nat (max 1 (length (re_sub_empty re_count_sentences text')))))"

definition count_words :: "string \<Rightarrow> dec" where
  "count_words text =
     (if length text = 0 then 0
      else D (of_nat (1 + length (re_sub_empty re_count_words text))))"

definition average_words_per_sentence :: "string \<Rightarrow> error + dec" where
  "average_words_per_sentence text = Inl (Exception ''Not implemented'')"

definition count_syllables :: "string \<Rightarrow> dec" where
  \<comment> \<open>\<^verbatim>\<open>sum\<close> adds from the left, starting at 0\<close>
  "count_syllables text =
     (let words = str_split text
      in D (foldl (\<lambda>a w. dec_add a (of_int (syllable_count w))) 0 words))"

definition count_complex_words :: "string \<Rightarrow> error + dec" where
  "count_complex_words text =
     (let words = str_split text;
          long_words = length (filter (\<lambda>w. 3 \<le> count_syllables w) words)
      in py_div (D (of_nat long_words)) (D (of_nat (length words))))"

subsection \<open>The formulas\<close>

definition flesch_kincaid_reading_ease :: "string \<Rightarrow> error + dec" where
  "flesch_kincaid_reading_ease text0 =
     (let text = clean_text text0;
          words = count_words text;
          sentences = count_sentences text;
          syllables = count_syllables text
      in case py_div words sentences of
           Inl e \<Rightarrow> Inl e
         | Inr words_over_sentences \<Rightarrow>
             (case py_div syllables words of
                Inl e \<Rightarrow> Inl e
              | Inr syllables_over_words \<Rightarrow>
                  Inr (dec_sub
                        (dec_sub (D (float_lit (206835 / 1000)))
                                 (dec_mul (D (float_lit (1015 / 1000))) words_over_sentences))
                        (dec_mul (D (float_lit (846 / 10))) syllables_over_words))))"

definition gunning_fog_score :: "string \<Rightarrow> error + dec" where
  "gunning_fog_score text0 =
     (let text = clean_text text0;
          words = count_words text;
          sentences = count_sentences text
      in case count_complex_words text of
           Inl e \<Rightarrow> Inl e
         | Inr complex_words \<Rightarrow>
             (case py_div words sentences of
                Inl e \<Rightarrow> Inl e
              | Inr words_over_sentences \<Rightarrow>
                  (case py_div complex_words words of
                     Inl e \<Rightarrow> Inl e
                   | Inr complex_over_normal \<Rightarrow>
                       Inr (dec_mul (D (float_lit (4 / 10)))
                             (dec_add words_over_sentences (dec_mul 100 complex_over_normal))))))"

text \<open>
  \<^verbatim>\<open>math.sqrt\<close> is not code of the repository: it converts its Decimal argument to a
  double and takes the platform's square root. The model takes it as the parameter
  \<open>sqrt_float\<close>; what the source passes to it, \<open>smog_radicand\<close>, is computed in full.
\<close>

definition smog_radicand :: "string \<Rightarrow> error + dec" where
  "smog_radicand text0 =
     (let text = clean_text text0;
          sentences = count_sentences text
      in case count_complex_words text of
           Inl e \<Rightarrow> Inl e
         | Inr polysyllables \<Rightarrow>
             (case py_div (D 30) sentences of
                Inl e \<Rightarrow> Inl e
              | Inr q \<Rightarrow> Inr (dec_add (dec_mul polysyllables q) (D (float_lit (31291 / 10000))))))"

definition smog_index :: "(dec \<Rightarrow> rat) \<Rightarrow> string \<Rightarrow> error + dec" where
  "smog_index sqrt_float text =
     (case smog_radicand text of
        Inl e \<Rightarrow> Inl e
      | Inr x \<Rightarrow> Inr (dec_mul (D (float_lit (1043 / 1000))) (D (sqrt_float x))))"

subsection \<open>The sentence count as the specification words it\<close>

text \<open>
  For the comparison with \<open>count_sentences\<close>: the deletions and the count written
  directly on the characters, with no regular expression.
\<close>

definition is_capital :: "char \<Rightarrow> bool" where
  "is_capital c = (65 \<le> (of_char c :: nat) \<and> (of_char c :: nat) \<le> 90)"

definition is_terminator :: "char \<Rightarrow> bool" where
  "is_terminator c = (c = CHR ''.'' \<or> c = CHR ''!'' \<or> c = CHR ''?'')"

fun delete_initials :: "string \<Rightarrow> string" where
  "delete_initials (a # b # c # d # rest) =
     (if is_capital a \<and> b = CHR ''.'' \<and> is_capital c \<and> d = CHR ''.''
      then delete_initials rest
      else a # delete_initials (b # c # d # rest))"
| "delete_initials text = text"

fun delete_mr :: "string \<Rightarrow> string" where
  "delete_mr (a # b # c # rest) =
     (if a = CHR ''M'' \<and> b = CHR ''r'' \<and> c = CHR ''.''
      then delete_mr rest
      else a # delete_mr (b # c # rest))"
| "delete_mr text = text"

definition spaces :: "string \<Rightarrow> nat" where
  \<comment> \<open>the number of space characters of a text\<close>
  "spaces text = length (filter (\<lambda>c. c = CHR '' '') text)"

text \<open>
  The formulas as the specification words them, on the counts of a text: the words, the
  sentences, and the number of complex words (the words of three syllables or more).
\<close>

definition complex_word_count :: "string \<Rightarrow> nat" where
  "complex_word_count text = length (filter (\<lambda>w. 3 \<le> syllable_count w) (str_split text))"

definition gunning_fog_claimed :: "rat \<Rightarrow> rat \<Rightarrow> rat \<Rightarrow> rat" where
  "gunning_fog_claimed words sentences complex_words =
     4 / 10 * (words / sentences + 100 * (complex_words / words))"

definition smog_radicand_claimed :: "rat \<Rightarrow> rat \<Rightarrow> rat" where
  "smog_radicand_claimed polysyllables sentences = polysyllables * (30 / sentences) + 31291 / 10000"

section \<open>Properties\<close>

declare ndigits.simps [simp del]

subsection \<open>No scanned pattern matches the empty string\<close>

lemma lit_at_advances:
  "(p', r', g') \<in> set (lit_at w (p, r, g)) \<Longrightarrow> p' = p + length w"
  by (auto simp: lit_at_def split: if_splits)

lemma rmatch_advances:
  "(p', r', g') \<in> set (rmatch x (p, r, g)) \<Longrightarrow> p \<le> p' \<and> (consumes x \<longrightarrow> p < p')"
proof (induction x arbitrary: p r g p' r' g')
  case (Lit w)
  then show ?case by (auto dest: lit_at_advances)
next
  case (Atom a)
  then show ?case by (auto split: list.splits if_splits)
next
  case (Rep a lo hi)
  then show ?case by (auto simp: Let_def)
next
  case (Seq a b)
  from Seq.prems obtain p1 r1 g1 where
    a: "(p1, r1, g1) \<in> set (rmatch a (p, r, g))" and b: "(p', r', g') \<in> set (rmatch b (p1, r1, g1))"
    by auto
  from Seq.IH(1) [OF a] Seq.IH(2) [OF b] show ?case by auto
next
  case (Group a)
  then show ?case by fastforce
next
  case Backref
  then show ?case by (auto dest: lit_at_advances split: option.splits)
qed auto

lemma match_len_consumes: "consumes x \<Longrightarrow> match_len x p r \<noteq> Some 0"
proof
  assume c: "consumes x" and m: "match_len x p r = Some 0"
  then obtain p' r' g' rest where e: "rmatch x (p, r, None) = (p', r', g') # rest" and z: "p' - p = 0"
    by (auto simp: match_len_def split: list.splits)
  from e have "(p', r', g') \<in> set (rmatch x (p, r, None))" by simp
  from rmatch_advances [OF this] c z show False by simp
qed

lemma scanned_patterns_consume:
  "list_all consumes
     ([re_count_sentences, re_count_words, re_letters_and_digits, re_syllable_non_word_chars,
       re_syllable_word_parts] @ re_remove_fake_sentences @ syllable_prefix_suffix)"
  by (simp add: re_count_sentences_def re_count_words_def re_letters_and_digits_def
      re_syllable_non_word_chars_def re_syllable_word_parts_def re_remove_fake_sentences_def
      re_initials_def re_mr_def syllable_prefix_suffix_def)

subsection \<open>Scanning with a one-character pattern\<close>

lemma match_len_Atom:
  "match_len (Atom a) p (c # cs) = (if atom_ok a c then Some (Suc 0) else None)"
  by (simp add: match_len_def)

lemma sub_at_Atom: "sub_at (Atom a) p s = filter (\<lambda>c. \<not> atom_ok a c) s"
  by (induction s arbitrary: p) (simp_all add: match_len_Atom)

lemma re_sub_empty_Atom: "re_sub_empty (Atom a) s = filter (\<lambda>c. \<not> atom_ok a c) s"
  by (simp add: re_sub_empty_def sub_at_Atom)

lemma match_len_initials:
  "match_len re_initials p s =
     (case s of
        a # b # c # d # rest \<Rightarrow>
          if is_capital a \<and> b = CHR ''.'' \<and> is_capital c \<and> d = CHR ''.'' then Some 4 else None
      | _ \<Rightarrow> None)"
  by (auto simp: match_len_def re_initials_def lit_at_def is_capital_def split: list.splits)

lemma match_len_mr:
  "match_len re_mr p s =
     (case s of
        a # b # c # rest \<Rightarrow>
          if a = CHR ''M'' \<and> b = CHR ''r'' \<and> c = CHR ''.'' then Some 3 else None
      | _ \<Rightarrow> None)"
  by (auto simp: match_len_def re_mr_def lit_at_def split: list.splits)

lemma sub_at_initials: "sub_at re_initials p s = delete_initials s"
proof (induction s arbitrary: p rule: delete_initials.induct)
  case (1 a b c d rest)
  then show ?case by (simp add: match_len_initials numeral_eq_Suc)
qed (simp_all add: match_len_initials)

lemma sub_at_mr: "sub_at re_mr p s = delete_mr s"
proof (induction s arbitrary: p rule: delete_mr.induct)
  case (1 a b c rest)
  then show ?case by (simp add: match_len_mr numeral_eq_Suc)
qed (simp_all add: match_len_mr)

lemma terminator_class: "list_ex (in_item c) (chars ''.!?'') = is_terminator c"
  by (auto simp: chars_def is_terminator_def)

lemma count_sentences_spec:
  "count_sentences text =
     (if text = [] then 0
      else of_nat (max 1 (length (filter is_terminator (delete_mr (delete_initials text))))))"
  by (simp add: count_sentences_def re_remove_fake_sentences_def re_sub_empty_def
      sub_at_initials sub_at_mr re_count_sentences_def sub_at_Atom terminator_class D_def)

lemma count_words_spaces:
  "count_words text = (if text = [] then 0 else 1 + of_nat (spaces text))"
  by (simp add: count_words_def re_count_words_def re_sub_empty_Atom chars_def D_def spaces_def)

lemma split_from_length: "length (split_from cur s) = 1 + spaces s"
  by (induction s arbitrary: cur) (simp_all add: spaces_def)

lemma str_split_length: "length (str_split text) = 1 + spaces text"
  by (simp add: str_split_def split_from_length)

subsection \<open>Rounding keeps a ratio in the unit interval\<close>

lemma round_half_even_range:
  assumes "0 \<le> y" and "y \<le> of_int k"
  shows "0 \<le> round_half_even y" and "round_half_even y \<le> k"
proof -
  have f0: "0 \<le> \<lfloor>y\<rfloor>" using assms(1) by simp
  have fk: "\<lfloor>y\<rfloor> \<le> k" using assms(2) by (simp add: floor_le_iff)
  have up: "\<lfloor>y\<rfloor> + 1 \<le> k" if "1 / 2 \<le> y - of_int \<lfloor>y\<rfloor>"
  proof -
    have "of_int \<lfloor>y\<rfloor> < y" using that by linarith
    then have "(of_int \<lfloor>y\<rfloor> :: rat) < of_int k" using assms(2) by linarith
    then show ?thesis by simp
  qed
  show "0 \<le> round_half_even y"
    using f0 by (simp add: round_half_even_def Let_def)
  show "round_half_even y \<le> k"
    using fk up by (auto simp: round_half_even_def Let_def)
qed

lemma magnitude_unit: "0 < x \<Longrightarrow> x \<le> 1 \<Longrightarrow> magnitude 10 x \<le> 0"
  by (cases "x = 1") (simp_all add: magnitude_def ndigits.simps [of 10 "Suc 0"])

lemma context_round_unit:
  assumes "0 \<le> x" and "x \<le> 1"
  shows "0 \<le> context_round x \<and> context_round x \<le> 1"
proof (cases "x = 0")
  case True
  then show ?thesis by (simp add: context_round_def round_sig_def)
next
  case False
  with assms have pos: "0 < x" by simp
  define e where "e = int 28 - 1 - magnitude 10 \<bar>x\<bar>"
  define K :: int where "K = 10 ^ nat e"
  have e0: "0 \<le> e" using magnitude_unit [OF pos assms(2)] pos by (simp add: e_def)
  have s: "scale_pow 10 e = of_int K" using e0 by (simp add: scale_pow_def K_def)
  have Kpos: "0 < K" by (simp add: K_def)
  have le: "x * of_int K \<le> of_int K" using assms(2) Kpos by (simp add: mult_le_cancel_right1)
  have ge: "0 \<le> x * of_int K" using pos Kpos by simp
  note r = round_half_even_range [OF ge le]
  have eq: "context_round x = of_int (round_half_even (x * of_int K)) / of_int K"
    using pos s by (simp add: context_round_def round_sig_def Let_def e_def)
  have "(0::rat) \<le> of_int (round_half_even (x * of_int K)) / of_int K"
    using r(1) Kpos by simp
  moreover have "of_int (round_half_even (x * of_int K)) / (of_int K :: rat) \<le> 1"
    using r(2) Kpos by (simp add: divide_le_eq_1)
  ultimately show ?thesis by (simp add: eq)
qed

lemma count_complex_words_value:
  "\<exists>r. count_complex_words text = Inr r \<and> 0 \<le> r \<and> r \<le> 1"
proof -
  define words where "words = str_split text"
  define long_words where "long_words = length (filter (\<lambda>w. 3 \<le> count_syllables w) words)"
  have n: "0 < length words" by (simp add: words_def str_split_length)
  have "long_words \<le> length words" by (simp add: long_words_def)
  then have q: "0 \<le> (of_nat long_words :: rat) / of_nat (length words)"
       "(of_nat long_words :: rat) / of_nat (length words) \<le> 1"
    using n by (simp_all add: divide_le_eq_1)
  have "count_complex_words text = Inr (context_round (of_nat long_words / of_nat (length words)))"
    using n by (simp add: count_complex_words_def Let_def py_div_def D_def words_def long_words_def)
  with context_round_unit [OF q] show ?thesis by simp
qed

lemma count_rules_empty: "count_rules [] = 1"
  by code_simp

lemma syllable_count_cleaned_empty:
  "text \<noteq> [] \<Longrightarrow> cleaned text = [] \<Longrightarrow> syllable_count text = 1"
  by (simp add: syllable_count_def syllable_problem_words_def count_rules_empty)

subsection \<open>Evaluations\<close>

lemma cleaned_rved: "cleaned ''rved'' = ''rved''"
  by code_simp

lemma syllable_count_rved: "syllable_count ''rved'' = - 1"
  by code_simp

lemma cleaned_marks: "cleaned ''!!!'' = []"
  by code_simp

lemma cleaned_marks2: "cleaned ''?!'' = []"
  by code_simp

lemma spaces_only: "count_complex_words ''   '' = Inr 0"
  by code_simp

lemma cat_words: "count_words ''The cat sat.'' = 3"
  by code_simp

lemma cat_sentences: "count_sentences ''The cat sat.'' = 1"
  by code_simp

lemma cat_syllables: "count_syllables ''The cat sat.'' = 3"
  by code_simp

lemma float_206_835: "D (float_lit (206835 / 1000)) = 7277359600993567 / 35184372088832"
  by code_simp

lemma cat_score:
  "flesch_kincaid_reading_ease ''The cat sat.'' =
     Inr (1191900000000000139355194051 / 10000000000000000000000000)"
  by code_simp

lemma banana_words: "count_words ''banana a'' = 2"
  by code_simp

lemma banana_sentences: "count_sentences ''banana a'' = 1"
  by code_simp

lemma banana_complex: "complex_word_count ''banana a'' = 1"
  by code_simp

lemma banana_ratio: "count_complex_words ''banana a'' = Inr (1 / 2)"
  by code_simp

lemma banana_fog:
  "gunning_fog_score ''banana a'' =
     Inr (108000000000000005995204333 / 10000000000000000000000000)"
  by code_simp

lemma banana_radicand:
  "smog_radicand ''banana a'' =
     Inr (90645500000000001072919531 / 5000000000000000000000000)"
  by code_simp

lemma abbreviations_sentences: "count_sentences ''Mr. Smith went to U.K. today.'' = 1"
  by code_simp

lemma double_space_words: "count_words ''a  b'' = 3"
  by code_simp

subsection \<open>The claims\<close>

text \<open>
  C1. The claim: for every text, \<open>gunning_fog_score\<close> is
  \<open>0.4 * (words / sentences + 100 * (complexWords / words))\<close>, where \<open>complexWords\<close> is the
  number of words of three syllables or more. The source does not compute this:
  \<open>count_complex_words\<close> returns the ratio of complex words to words, and the formula divides
  that ratio by the word count once more. On \<open>banana a\<close> (two words, one sentence, one
  complex word) the source returns \<open>10.80000000000000059952043330\<close>, where the claimed
  formula gives \<open>20.8\<close>.
\<close>

theorem gunning_fog_divides_twice:
  "count_words ''banana a'' = 2 \<and> count_sentences ''banana a'' = 1 \<and>
   complex_word_count ''banana a'' = 1 \<and>
   gunning_fog_score ''banana a'' =
     Inr (108000000000000005995204333 / 10000000000000000000000000) \<and>
   gunning_fog_claimed 2 1 1 = 104 / 5"
  by (simp add: banana_words banana_sentences banana_complex banana_fog gunning_fog_claimed_def)

text \<open>
  C2. The claim: for every text, \<open>smog_index\<close> is
  \<open>1.043 * sqrt (polysyllables * (30 / sentences) + 3.1291)\<close>, where \<open>polysyllables\<close> is the
  number of complex words, a count. The source passes the ratio of \<open>count_complex_words\<close>
  instead: on \<open>banana a\<close> (one complex word of two words, one sentence) the square root is
  taken of \<open>18.12910000000000021458390620\<close>, where the claimed formula takes it of
  \<open>33.1291\<close>.
\<close>

theorem smog_index_uses_ratio:
  "complex_word_count ''banana a'' = 1 \<and> count_sentences ''banana a'' = 1 \<and>
   count_complex_words ''banana a'' = Inr (1 / 2) \<and>
   smog_index sqrt_float ''banana a'' =
     Inr (dec_mul (D (float_lit (1043 / 1000)))
           (D (sqrt_float (90645500000000001072919531 / 5000000000000000000000000)))) \<and>
   smog_radicand_claimed 1 1 = 331291 / 10000"
  by (simp add: banana_complex banana_sentences banana_ratio banana_radicand smog_index_def
      smog_radicand_claimed_def)

text \<open>
  C3. The claim: for every word that is not empty after cleaning, \<open>syllable_count\<close> is at
  least 1. The source replaces a count of 0 by 1 and leaves a negative count as it is: the
  word \<open>rved\<close> has one group of vowels and matches two of the patterns that subtract, so
  its count is \<open>-1\<close>.
\<close>

theorem syllable_count_negative:
  "cleaned ''rved'' = ''rved'' \<and> syllable_count ''rved'' = - 1"
  by (simp add: cleaned_rved syllable_count_rved)

text \<open>
  C4, as amended. \<open>syllable_count\<close> is 0 for the empty word; for a word that is not empty
  and whose cleaned form is empty (a word of punctuation only) it is 1, not 0: the count of
  such a word is 0 before the last step, which replaces 0 by 1.
\<close>

theorem syllable_count_punctuation:
  "syllable_count [] = 0 \<and>
   (text \<noteq> [] \<and> cleaned text = [] \<longrightarrow> syllable_count text = 1)"
  by (simp add: syllable_count_cleaned_empty) (simp add: syllable_count_def)

theorem syllable_count_punctuation_witness:
  "cleaned ''?!'' = [] \<and> syllable_count ''?!'' = 1"
  using syllable_count_punctuation [of "''?!''"] by (simp add: cleaned_marks2)

text \<open>
  C4 as stated fails at the word \<open>!!!\<close>: its cleaned form is empty and its count is 1.
\<close>

theorem syllable_count_punctuation_counterexample:
  "cleaned ''!!!'' = [] \<and> syllable_count ''!!!'' \<noteq> 0"
  using syllable_count_cleaned_empty [of "''!!!''"] by (simp add: cleaned_marks)

text \<open>
  C5, as amended. No text makes \<open>count_complex_words\<close> divide by zero: splitting a text on
  single spaces gives one word more than it has spaces, so at least one, and the division
  returns a value.
\<close>

theorem count_complex_words_no_fault:
  "length (str_split text) = 1 + spaces text \<and>
   count_complex_words text \<noteq> Inl ZeroDivisionError"
  using count_complex_words_value [of "text"] by (auto simp: str_split_length)

text \<open>
  C5 as stated fails: a text of three spaces splits into four empty words and the ratio is
  0, and no text at all splits into zero words or faults.
\<close>

theorem count_complex_words_fault_counterexample:
  "count_complex_words ''   '' = Inr 0 \<and>
   \<not> (\<exists>text. length (str_split text) = 0 \<or> count_complex_words text = Inl ZeroDivisionError)"
proof -
  have "length (str_split t) \<noteq> 0" for t
    by (simp add: str_split_length)
  moreover have "count_complex_words t \<noteq> Inl ZeroDivisionError" for t
    using count_complex_words_value [of t] by auto
  ultimately show ?thesis
    by (simp add: spaces_only)
qed

text \<open>
  C6. The claim: on \<open>The cat sat.\<close> the counts are 3 words, 1 sentence and 3 syllables, and
  \<open>flesch_kincaid_reading_ease\<close> is exactly \<open>119.19\<close>. The counts are as claimed; the score
  is \<open>119.1900000000000139355194051\<close>, because the source builds its constants from float
  literals (\<open>D(206.835)\<close> is the double nearest to \<open>206.835\<close>, not \<open>206.835\<close>).
\<close>

theorem reading_ease_not_exact:
  "count_words ''The cat sat.'' = 3 \<and> count_sentences ''The cat sat.'' = 1 \<and>
   count_syllables ''The cat sat.'' = 3 \<and>
   flesch_kincaid_reading_ease ''The cat sat.'' =
     Inr (1191900000000000139355194051 / 10000000000000000000000000) \<and>
   flesch_kincaid_reading_ease ''The cat sat.'' \<noteq> Inr (11919 / 100) \<and>
   D (float_lit (206835 / 1000)) = 7277359600993567 / 35184372088832"
proof (intro conjI)
  show "count_words ''The cat sat.'' = 3"
    by (rule cat_words)
  show "count_sentences ''The cat sat.'' = 1"
    by (rule cat_sentences)
  show "count_syllables ''The cat sat.'' = 3"
    by (rule cat_syllables)
  show "flesch_kincaid_reading_ease ''The cat sat.'' =
     Inr (1191900000000000139355194051 / 10000000000000000000000000)"
    by (rule cat_score)
  show "flesch_kincaid_reading_ease ''The cat sat.'' \<noteq> Inr (11919 / 100)"
    by (simp add: cat_score)
  show "D (float_lit (206835 / 1000)) = 7277359600993567 / 35184372088832"
    by (rule float_206_835)
qed

text \<open>
  C7. \<open>count_sentences\<close> is 0 for the empty text; for any other text it is the larger of 1
  and the number of the characters \<open>.\<close>, \<open>!\<close> and \<open>?\<close> that are left once every pair of
  capital initials (\<open>U.K.\<close>) and then every \<open>Mr.\<close> is deleted; on
  \<open>Mr. Smith went to U.K. today.\<close> it is 1.
\<close>

theorem count_sentences_abbreviations:
  "count_sentences [] = 0 \<and>
   (text \<noteq> [] \<longrightarrow>
      count_sentences text =
        of_nat (max 1 (length (filter is_terminator (delete_mr (delete_initials text)))))) \<and>
   count_sentences ''Mr. Smith went to U.K. today.'' = 1"
proof (intro conjI)
  show "count_sentences [] = 0"
    by (simp add: count_sentences_spec)
  show "text \<noteq> [] \<longrightarrow>
      count_sentences text =
        of_nat (max 1 (length (filter is_terminator (delete_mr (delete_initials text)))))"
    by (simp add: count_sentences_spec)
  show "count_sentences ''Mr. Smith went to U.K. today.'' = 1"
    by (rule abbreviations_sentences)
qed

theorem count_sentences_abbreviations_witness:
  "count_sentences ''Hi! U.S. ok?'' =
     of_nat (max 1 (length (filter is_terminator (delete_mr (delete_initials ''Hi! U.S. ok?''))))) \<and>
   delete_mr (delete_initials ''Hi! U.S. ok?'') = ''Hi!  ok?''"
  using count_sentences_abbreviations [of "''Hi! U.S. ok?''"] by (simp add: is_capital_def)

text \<open>
  C8. \<open>count_words\<close> is 0 for the empty text; for any other text it is 1 plus the number of
  its space characters, each space of a run counted; on \<open>a  b\<close> (two spaces) it is 3.
\<close>

theorem count_words_spaces_plus_one:
  "count_words [] = 0 \<and>
   (text \<noteq> [] \<longrightarrow> count_words text = 1 + of_nat (spaces text)) \<and>
   count_words ''a  b'' = 3"
  by (simp add: count_words_spaces spaces_def)

theorem count_words_spaces_plus_one_witness:
  "count_words ''one two  three'' = 1 + of_nat (spaces ''one two  three'') \<and>
   spaces ''one two  three'' = 3"
  using count_words_spaces_plus_one [of "''one two  three''"] by (simp add: spaces_def)

text \<open>
  C9. \<open>average_words_per_sentence\<close> raises \<open>Exception("Not implemented")\<close> on every text and
  returns no value.
\<close>

theorem average_words_per_sentence_raises:
  "average_words_per_sentence text = Inl (Exception ''Not implemented'') \<and>
   (\<nexists>v. average_words_per_sentence text = Inr v)"
  by (simp add: average_words_per_sentence_def)

text \<open>
  C10. For every text, the empty one and those of spaces only included, splitting on single
  spaces gives at least one word, so \<open>count_complex_words\<close> divides by a number that is not
  zero, and what it returns is a ratio between 0 and 1.
\<close>

theorem count_complex_words_ratio:
  "str_split text \<noteq> [] \<and>
   (\<exists>r. count_complex_words text = Inr r \<and> 0 \<le> r \<and> r \<le> 1)"
proof -
  have "length (str_split text) \<noteq> 0"
    by (simp add: str_split_length)
  then have "str_split text \<noteq> []"
    by auto
  then show ?thesis
    using count_complex_words_value [of "text"] by simp
qed

end
